theory Spec2Isabelle
  imports Main "HOL-Library.Sublist"
begin

section \<open>Data model\<close>

text \<open>
  \<^verbatim>\<open>export enum UserRole { SUPERADMIN = 'superadmin', ADMIN = 'admin', USER = 'user' }\<close>
  The enum is a datatype; \<open>role_value\<close> gives the string each member is at run time.
\<close>

datatype UserRole = SUPERADMIN | ADMIN | USER

fun role_value :: "UserRole \<Rightarrow> string" where
  "role_value SUPERADMIN = ''superadmin''"
| "role_value ADMIN = ''admin''"
| "role_value USER = ''user''"

text \<open>
  The strings that travel through the \<open>password\<close> positions of the program. The library
  \<open>bcrypt\<close> is not part of the repository; it is modelled symbolically, in the manner of
  the perfect-cryptography models of protocol verification: a digest is a free
  constructor over the salt drawn by the call and the string that was hashed, so two
  digests are equal only when salt and input are, and a digest is never the string it was
  computed from. A digest is itself a string and can be hashed again.
\<close>

datatype pwstring = Plain string | Digest string pwstring

text \<open>
  \<^verbatim>\<open>bcrypt.hash(data, 10)\<close>: the salt the call draws is an explicit argument (the cost
  factor 10 is the same at every call site and is left out).
  \<^verbatim>\<open>bcrypt.compare(data, encrypted)\<close> hashes \<open>data\<close> again with the salt embedded in
  \<open>encrypted\<close> and compares; a string that is not a digest never matches.
\<close>

definition bcrypt_hash :: "string \<Rightarrow> pwstring \<Rightarrow> pwstring" where
  "bcrypt_hash salt data = Digest salt data"

fun bcrypt_compare :: "pwstring \<Rightarrow> pwstring \<Rightarrow> bool" where
  "bcrypt_compare data (Digest salt d) = (bcrypt_hash salt data = Digest salt d)"
| "bcrypt_compare data (Plain s) = False"

text \<open>
  The entity \<^verbatim>\<open>Users\<close> (\<open>uid\<close> is its column \<^verbatim>\<open>id\<close>, a generated uuid), and the body
  of \<^verbatim>\<open>PUT /users/:id\<close>, \<^verbatim>\<open>UpdateUserDto\<close>, whose three fields are each optional.
\<close>

record Users =
  uid :: string
  username :: string
  password :: pwstring
  role :: UserRole

record UpdateUserDto =
  dto_username :: "string option"
  dto_password :: "pwstring option"
  dto_role :: "UserRole option"

datatype HttpException =
    NotFoundException string
  | ForbiddenException string
  | UnauthorizedException

section \<open>The repository\<close>

text \<open>
  The table behind \<^verbatim>\<open>Repository<Users>\<close> is the list of its rows, in insertion order.
  Every operation takes the table and returns what TypeORM returns together with the
  table afterwards. \<open>repo_save\<close> inserts the row under the uuid the database generates
  (an explicit argument); \<open>repo_update\<close> and \<open>repo_delete\<close> return the number of
  affected rows.
\<close>

type_synonym repository = "Users list"

definition repo_save :: "string \<Rightarrow> string \<Rightarrow> pwstring \<Rightarrow> UserRole \<Rightarrow> repository
    \<Rightarrow> Users \<times> repository" where
  "repo_save newId name pw r store =
     (let user = \<lparr>uid = newId, username = name, password = pw, role = r\<rparr>
      in (user, store @ [user]))"

definition apply_partial :: "UpdateUserDto \<Rightarrow> Users \<Rightarrow> Users" where
  "apply_partial dto u =
     u\<lparr>username := (case dto_username dto of None \<Rightarrow> username u | Some v \<Rightarrow> v),
       password := (case dto_password dto of None \<Rightarrow> password u | Some v \<Rightarrow> v),
       role := (case dto_role dto of None \<Rightarrow> role u | Some v \<Rightarrow> v)\<rparr>"

definition repo_update :: "string \<Rightarrow> UpdateUserDto \<Rightarrow> repository \<Rightarrow> nat \<times> repository" where
  "repo_update i dto store =
     (length (filter (\<lambda>u. uid u = i) store),
      map (\<lambda>u. if uid u = i then apply_partial dto u else u) store)"

definition repo_delete :: "string \<Rightarrow> repository \<Rightarrow> nat \<times> repository" where
  "repo_delete i store =
     (length (filter (\<lambda>u. uid u = i) store), filter (\<lambda>u. uid u \<noteq> i) store)"

definition repo_find :: "repository \<Rightarrow> Users list" where
  "repo_find store = store"

definition repo_findOne :: "string \<Rightarrow> repository \<Rightarrow> Users option" where
  "repo_findOne name store = find (\<lambda>u. username u = name) store"

section \<open>UsersService\<close>

text \<open>
  \<^verbatim>\<open>
  async create(username, password, role) {
    const hashedPassword = await bcrypt.hash(password, 10);
    const user = this.userRepository.create({ username, password: hashedPassword, role });
    return this.userRepository.save(user);
  }
  async update(id, user) {
    const result = await this.userRepository.update(id, user);
    if (result.affected === 0) throw new NotFoundException(`User with ID ${id} not found.`);
  }
  async delete(id) {
    const result = await this.userRepository.delete(id);
    if (result.affected === 0) throw new NotFoundException(`User with ID ${id} not found.`);
  }
  async findAll() { return this.userRepository.find(); }
  async findOne(username) { return this.userRepository.findOne({ where: { username } }); }
  \<close>
\<close>

definition UsersService_create :: "string \<Rightarrow> string \<Rightarrow> string \<Rightarrow> pwstring \<Rightarrow> UserRole
    \<Rightarrow> repository \<Rightarrow> Users \<times> repository" where
  "UsersService_create salt newId name pw r store =
     (let hashedPassword = bcrypt_hash salt pw
      in repo_save newId name hashedPassword r store)"

definition UsersService_update :: "string \<Rightarrow> UpdateUserDto \<Rightarrow> repository
    \<Rightarrow> (HttpException + unit) \<times> repository" where
  "UsersService_update i user store =
     (case repo_update i user store of
        (affected, store') \<Rightarrow>
          if affected = 0
          then (Inl (NotFoundException (''User with ID '' @ i @ '' not found.'')), store')
          else (Inr (), store'))"

definition UsersService_delete :: "string \<Rightarrow> repository
    \<Rightarrow> (HttpException + unit) \<times> repository" where
  "UsersService_delete i store =
     (case repo_delete i store of
        (affected, store') \<Rightarrow>
          if affected = 0
          then (Inl (NotFoundException (''User with ID '' @ i @ '' not found.'')), store')
          else (Inr (), store'))"

definition UsersService_findAll :: "repository \<Rightarrow> Users list" where
  "UsersService_findAll store = repo_find store"

definition UsersService_findOne :: "string \<Rightarrow> repository \<Rightarrow> Users option" where
  "UsersService_findOne name store = repo_findOne name store"

section \<open>UsersController\<close>

text \<open>
  \<^verbatim>\<open>
  async create(createUserDto) {
    try { return await this.userService.create(createUserDto.username,
                         createUserDto.password, createUserDto.role); }
    catch (error) { throw new ForbiddenException('No access to create user.'); }
  }
  async update(id, updateUserDto) {
    try { await this.userService.update(id, updateUserDto);
          return { message: 'User updated successfully.' }; }
    catch (error) { throw new ForbiddenException('No access to update user.'); }
  }
  async delete(id) {
    try { await this.userService.delete(id);
          return { message: 'User deleted successfully.' }; }
    catch (error) { throw new ForbiddenException('No access to delete user.'); }
  }
  async findAll() { return this.userService.findAll(); }
  \<close>
  Each handler returns what the HTTP caller receives: the exception that leaves the
  handler, or the body of the response. The \<^verbatim>\<open>catch\<close> clauses take every error
  whatever its class. In the model \<open>UsersService_create\<close> has no failing branch, so the
  handler of \<^verbatim>\<open>create\<close> always answers with the saved entity.
\<close>

definition UsersController_create :: "string \<Rightarrow> string \<Rightarrow> string \<Rightarrow> pwstring \<Rightarrow> UserRole
    \<Rightarrow> repository \<Rightarrow> (HttpException + Users) \<times> repository" where
  "UsersController_create salt newId name pw r store =
     (case UsersService_create salt newId name pw r store of
        (user, store') \<Rightarrow> (Inr user, store'))"

definition UsersController_update :: "string \<Rightarrow> UpdateUserDto \<Rightarrow> repository
    \<Rightarrow> (HttpException + string) \<times> repository" where
  "UsersController_update i updateUserDto store =
     (case UsersService_update i updateUserDto store of
        (Inr _, store') \<Rightarrow> (Inr ''User updated successfully.'', store')
      | (Inl error, store') \<Rightarrow> (Inl (ForbiddenException ''No access to update user.''), store'))"

definition UsersController_delete :: "string \<Rightarrow> repository
    \<Rightarrow> (HttpException + string) \<times> repository" where
  "UsersController_delete i store =
     (case UsersService_delete i store of
        (Inr _, store') \<Rightarrow> (Inr ''User deleted successfully.'', store')
      | (Inl error, store') \<Rightarrow> (Inl (ForbiddenException ''No access to delete user.''), store'))"

definition UsersController_findAll :: "repository \<Rightarrow> Users list" where
  "UsersController_findAll store = UsersService_findAll store"

section \<open>SeedService\<close>

text \<open>
  \<^verbatim>\<open>
  async seed() {
    const username = 'superadmin';
    const password = 'superadmin';
    const role = UserRole.SUPERADMIN;
    const existingUser = await this.usersService.findOne(username);
    if (!existingUser) {
      const hashedPassword = await bcrypt.hash(password, 10);
      await this.usersService.create(username, hashedPassword, role);
    }
  }
  \<close>
  \<open>salt1\<close> is the salt drawn by the call of \<^verbatim>\<open>bcrypt.hash\<close> in \<^verbatim>\<open>seed\<close>, \<open>salt2\<close> the one
  drawn inside \<^verbatim>\<open>UsersService.create\<close>.
\<close>

definition SeedService_seed :: "string \<Rightarrow> string \<Rightarrow> string \<Rightarrow> repository \<Rightarrow> repository" where
  "SeedService_seed salt1 salt2 newId store =
     (let name = ''superadmin'';
          pw = Plain ''superadmin'';
          r = SUPERADMIN
      in case UsersService_findOne name store of
           None \<Rightarrow>
             (let hashedPassword = bcrypt_hash salt1 pw
              in snd (UsersService_create salt2 newId name hashedPassword r store))
         | Some existingUser \<Rightarrow> store)"

section \<open>Authentication\<close>

text \<open>
  \<^verbatim>\<open>
  async validateUser(username, pass) {
    const user = await this.userService.findOne(username);
    if (user && (await bcrypt.compare(pass, user.password))) {
      const { password, ...result } = user;
      return result;
    }
    return null;
  }
  \<close>
  \<open>UserResult\<close> is the entity without its \<^verbatim>\<open>password\<close>. \<^verbatim>\<open>LocalStrategy.validate\<close>
  throws \<^verbatim>\<open>UnauthorizedException\<close> when \<^verbatim>\<open>validateUser\<close> returns \<^verbatim>\<open>null\<close>.
\<close>

record UserResult =
  r_id :: string
  r_username :: string
  r_role :: UserRole

definition AuthService_validateUser :: "string \<Rightarrow> pwstring \<Rightarrow> repository
    \<Rightarrow> UserResult option" where
  "AuthService_validateUser name pass store =
     (case UsersService_findOne name store of
        None \<Rightarrow> None
      | Some user \<Rightarrow>
          if bcrypt_compare pass (password user)
          then Some \<lparr>r_id = uid user, r_username = username user, r_role = role user\<rparr>
          else None)"

definition LocalStrategy_validate :: "string \<Rightarrow> pwstring \<Rightarrow> repository
    \<Rightarrow> HttpException + UserResult" where
  "LocalStrategy_validate name pw store =
     (case AuthService_validateUser name pw store of
        None \<Rightarrow> Inl UnauthorizedException
      | Some user \<Rightarrow> Inr user)"

text \<open>
  Tokens. The library behind \<^verbatim>\<open>JwtService\<close> is not part of the repository; it is
  modelled symbolically as well. The claims of a token are the payload handed to
  \<^verbatim>\<open>sign\<close> together with \<^verbatim>\<open>iat\<close> and \<^verbatim>\<open>exp\<close> (seconds); the signature is a free
  constructor over the secret and the claims, so it verifies only under the secret and
  for the claims it was computed from. \<^verbatim>\<open>signOptions: { expiresIn: '60m' }\<close> makes
  \<^verbatim>\<open>exp = iat + 3600\<close>; verification with \<^verbatim>\<open>ignoreExpiration: false\<close> rejects a token once
  the clock has reached \<^verbatim>\<open>exp\<close>. A token is kept structured: the string that cannot be
  decoded at all has no counterpart here.
\<close>

record JwtPayload =
  p_username :: string
  sub :: string
  p_role :: UserRole

record JwtClaims = JwtPayload +
  iat :: nat
  exp :: nat

datatype hmac = HS256 string JwtClaims

record Token =
  claims :: JwtClaims
  signature :: hmac

datatype TokenError = JsonWebTokenError | TokenExpiredError

definition jwt_sign :: "string \<Rightarrow> nat \<Rightarrow> JwtPayload \<Rightarrow> Token" where
  "jwt_sign secret now payload =
     (let c = \<lparr>p_username = p_username payload, sub = sub payload, p_role = p_role payload,
               iat = now, exp = now + 3600\<rparr>
      in \<lparr>claims = c, signature = HS256 secret c\<rparr>)"

definition jwt_verify :: "string \<Rightarrow> nat \<Rightarrow> Token \<Rightarrow> TokenError + JwtClaims" where
  "jwt_verify secret now token =
     (if signature token \<noteq> HS256 secret (claims token) then Inl JsonWebTokenError
      else if now \<ge> exp (claims token) then Inl TokenExpiredError
      else Inr (claims token))"

text \<open>
  \<^verbatim>\<open>
  async login(user: any) {
    const payload = { username: user.username, sub: user.id, role: user.role };
    return { access_token: this.jwtService.sign(payload) };
  }
  \<close>
  and \<^verbatim>\<open>AuthController.login\<close>, behind \<^verbatim>\<open>LocalAuthGuard\<close>, which calls it on the user
  \<^verbatim>\<open>LocalStrategy.validate\<close> returned.
\<close>

record LoginResponse =
  access_token :: Token

definition AuthService_login :: "string \<Rightarrow> nat \<Rightarrow> UserResult \<Rightarrow> LoginResponse" where
  "AuthService_login secret now user =
     (let payload = \<lparr>p_username = r_username user, sub = r_id user, p_role = r_role user\<rparr>
      in \<lparr>access_token = jwt_sign secret now payload\<rparr>)"

definition AuthController_login :: "string \<Rightarrow> nat \<Rightarrow> string \<Rightarrow> pwstring \<Rightarrow> repository
    \<Rightarrow> HttpException + LoginResponse" where
  "AuthController_login secret now name pw store =
     (case LocalStrategy_validate name pw store of
        Inl e \<Rightarrow> Inl e
      | Inr user \<Rightarrow> Inr (AuthService_login secret now user))"

text \<open>
  \<^verbatim>\<open>
  async validate(payload: any) {
    return { userId: payload.sub, username: payload.username, role: payload.role };
  }
  \<close>
  \<open>ReqUser\<close> is the object attached to the request as \<^verbatim>\<open>user\<close>. \<open>JwtAuthGuard\<close> is the
  passport guard: it verifies the bearer token under the same secret, answers
  \<^verbatim>\<open>UnauthorizedException\<close> when verification fails, and otherwise attaches what
  \<^verbatim>\<open>JwtStrategy.validate\<close> returns for the verified payload.
\<close>

record ReqUser =
  userId :: string
  u_username :: string
  u_role :: UserRole

definition JwtStrategy_validate :: "JwtClaims \<Rightarrow> ReqUser" where
  "JwtStrategy_validate payload =
     \<lparr>userId = sub payload, u_username = p_username payload, u_role = p_role payload\<rparr>"

definition JwtAuthGuard :: "string \<Rightarrow> nat \<Rightarrow> Token \<Rightarrow> HttpException + ReqUser" where
  "JwtAuthGuard secret now token =
     (case jwt_verify secret now token of
        Inl e \<Rightarrow> Inl UnauthorizedException
      | Inr payload \<Rightarrow> Inr (JwtStrategy_validate payload))"

section \<open>RolesGuard\<close>

text \<open>
  \<^verbatim>\<open>String.prototype.includes\<close>: whether \<open>searchString\<close> occurs in the string at some
  position.
\<close>

fun str_includes :: "string \<Rightarrow> string \<Rightarrow> bool" where
  "str_includes [] searchString = (searchString = [])"
| "str_includes (c # cs) searchString =
     (prefix searchString (c # cs) \<or> str_includes cs searchString)"

text \<open>
  \<^verbatim>\<open>
  canActivate(context: ExecutionContext): boolean {
    const requiredRoles = this.reflector.getAllAndOverride<UserRole[]>(ROLES_KEY, [...]);
    if (!requiredRoles) { return true; }
    const { user } = context.switchToHttp().getRequest();
    return requiredRoles.some((role) => user.role?.includes(role));
  }
  \<close>
  The metadata is \<open>None\<close> when no \<^verbatim>\<open>@Roles(...)\<close> is declared and \<open>Some rs\<close> when one is,
  \<open>rs\<close> being the array of its arguments (an empty array is truthy, so \<^verbatim>\<open>!requiredRoles\<close>
  is true for the absent metadata only). The user is the one \<open>JwtStrategy_validate\<close>
  attached, whose \<^verbatim>\<open>role\<close> is always defined, so the optional chaining never
  short-circuits. \<open>True\<close> allows the request, \<open>False\<close> denies it.
\<close>

definition RolesGuard_canActivate :: "UserRole list option \<Rightarrow> ReqUser \<Rightarrow> bool" where
  "RolesGuard_canActivate requiredRoles user =
     (case requiredRoles of
        None \<Rightarrow> True
      | Some rs \<Rightarrow> list_ex (\<lambda>r. str_includes (role_value (u_role user)) (role_value r)) rs)"

section \<open>Auxiliary facts\<close>

lemma str_includes_sublist: "str_includes s t \<longleftrightarrow> sublist t s"
  by (induction s) (auto simp: sublist_Cons_right)

lemma role_value_includes:
  "str_includes (role_value a) (role_value b) \<longleftrightarrow> a = b \<or> (a = SUPERADMIN \<and> b = ADMIN)"
  by (cases a; cases b; simp)

lemma canActivate_Some:
  "RolesGuard_canActivate (Some rs) user \<longleftrightarrow>
     u_role user \<in> set rs \<or> (u_role user = SUPERADMIN \<and> ADMIN \<in> set rs)"
  by (auto simp: RolesGuard_canActivate_def list_ex_iff role_value_includes)

lemma bcrypt_compare_hash: "bcrypt_compare data (bcrypt_hash salt data')  \<longleftrightarrow> data = data'"
  by (auto simp: bcrypt_hash_def)

lemma bcrypt_hash_neq: "bcrypt_hash salt data \<noteq> data"
  by (induction data arbitrary: salt) (simp_all add: bcrypt_hash_def)

lemma create_persists_digest:
  "UsersService_create salt newId name pw r store =
     (\<lparr>uid = newId, username = name, password = bcrypt_hash salt pw, role = r\<rparr>,
      store @ [\<lparr>uid = newId, username = name, password = bcrypt_hash salt pw, role = r\<rparr>])"
  by (simp add: UsersService_create_def repo_save_def Let_def)

lemma seed_fresh:
  "SeedService_seed salt1 salt2 newId [] =
     [\<lparr>uid = newId, username = ''superadmin'',
       password = bcrypt_hash salt2 (bcrypt_hash salt1 (Plain ''superadmin'')),
       role = SUPERADMIN\<rparr>]"
  by (simp add: SeedService_seed_def UsersService_findOne_def repo_findOne_def
      create_persists_digest Let_def)

lemma findOne_present:
  assumes "u \<in> set store" and "username u = name"
  shows "\<exists>v. UsersService_findOne name store = Some v"
proof (cases "UsersService_findOne name store")
  case None
  then have "\<not> (\<exists>x\<in>set store. username x = name)"
    by (simp add: UsersService_findOne_def repo_findOne_def find_None_iff)
  with assms show ?thesis by blast
next
  case (Some v)
  then show ?thesis by blast
qed

lemma service_delete_missing:
  assumes "i \<notin> uid ` set store"
  shows "UsersService_delete i store =
           (Inl (NotFoundException (''User with ID '' @ i @ '' not found.'')), store)"
proof -
  from assms have none: "\<forall>u\<in>set store. uid u \<noteq> i" by auto
  then have "filter (\<lambda>u. uid u = i) store = []" by (simp add: filter_empty_conv)
  moreover from none have "filter (\<lambda>u. uid u \<noteq> i) store = store" by (simp add: filter_id_conv)
  ultimately show ?thesis by (simp add: UsersService_delete_def repo_delete_def)
qed

lemma service_update_missing:
  assumes "i \<notin> uid ` set store"
  shows "UsersService_update i dto store =
           (Inl (NotFoundException (''User with ID '' @ i @ '' not found.'')), store)"
proof -
  from assms have none: "\<forall>u\<in>set store. uid u \<noteq> i" by auto
  then have "filter (\<lambda>u. uid u = i) store = []" by (simp add: filter_empty_conv)
  moreover from none have "map (\<lambda>u. if uid u = i then apply_partial dto u else u) store = store"
    by (simp add: map_idI)
  ultimately show ?thesis by (simp add: UsersService_update_def repo_update_def)
qed

lemma controller_delete_missing:
  "i \<notin> uid ` set store \<Longrightarrow>
   UsersController_delete i store =
     (Inl (ForbiddenException ''No access to delete user.''), store)"
  by (simp add: UsersController_delete_def service_delete_missing)

lemma controller_update_missing:
  "i \<notin> uid ` set store \<Longrightarrow>
   UsersController_update i dto store =
     (Inl (ForbiddenException ''No access to update user.''), store)"
  by (simp add: UsersController_update_def service_update_missing)

lemma verify_wrong_secret:
  "secret' \<noteq> secret \<Longrightarrow>
   JwtAuthGuard secret' now (access_token (AuthService_login secret issuedAt user)) =
     Inl UnauthorizedException"
  by (simp add: JwtAuthGuard_def jwt_verify_def AuthService_login_def jwt_sign_def Let_def)

lemma verify_expired:
  "issuedAt + 3600 \<le> now \<Longrightarrow>
   JwtAuthGuard secret now (access_token (AuthService_login secret issuedAt user)) =
     Inl UnauthorizedException"
  by (simp add: JwtAuthGuard_def jwt_verify_def AuthService_login_def jwt_sign_def Let_def)

section \<open>The seeded account and login\<close>

text \<open>
  C1. The claim: after seeding an empty store, logging in as \<open>superadmin\<close> with the
  password \<open>superadmin\<close> succeeds. \<open>SeedService_seed\<close> hashes the password and hands the
  digest to \<open>UsersService_create\<close>, which hashes its argument again; the stored value is
  the digest of a digest, against which the plaintext does not verify. Whatever the
  salts, the generated id, the secret and the clock, the login is answered with
  \<open>UnauthorizedException\<close>.
\<close>

theorem seed_then_login_unauthorized:
  "AuthController_login secret now ''superadmin'' (Plain ''superadmin'')
     (SeedService_seed salt1 salt2 newId []) = Inl UnauthorizedException"
  by (simp add: AuthController_login_def LocalStrategy_validate_def
      AuthService_validateUser_def seed_fresh UsersService_findOne_def repo_findOne_def
      bcrypt_hash_def)

section \<open>Passwords at rest and in responses\<close>

text \<open>
  C2. The claim: every create and every update that supplies a password persists the
  digest of the supplied plaintext. \<open>UsersService_create\<close> does (\<open>create_persists_digest\<close>);
  \<open>UsersService_update\<close> passes the body to the repository as it is. Updating the only
  row of a store with the password \<open>p\<close> leaves \<open>Plain p\<close> in the row.
\<close>

theorem update_persists_plaintext_password:
  "UsersController_update i
     \<lparr>dto_username = None, dto_password = Some (Plain p), dto_role = None\<rparr>
     [\<lparr>uid = i, username = n, password = h, role = r\<rparr>] =
   (Inr ''User updated successfully.'',
    [\<lparr>uid = i, username = n, password = Plain p, role = r\<rparr>])"
  by (simp add: UsersController_update_def UsersService_update_def repo_update_def
      apply_partial_def)

text \<open>
  C3. The claim: the response of \<^verbatim>\<open>GET /users\<close> carries no password hash. The handler
  returns the entities the repository holds, so the passwords in the response are
  exactly the stored ones.
\<close>

theorem findAll_response_carries_passwords:
  "map password (UsersController_findAll store) = map password store"
  by (simp add: UsersController_findAll_def UsersService_findAll_def repo_find_def)

section \<open>The role check\<close>

text \<open>
  C4. The claim: for a non-empty requirement the guard allows exactly when the user's
  role is a member of the required roles; SUPERADMIN does not pass a requirement that
  lists only ADMIN. The guard tests \<^verbatim>\<open>user.role?.includes(role)\<close> on strings, and
  \<open>''superadmin''\<close> includes \<open>''admin''\<close>: a SUPERADMIN is allowed by the requirement
  \<open>[ADMIN]\<close>, of which its role is not a member.
\<close>

theorem superadmin_passes_admin_only:
  "RolesGuard_canActivate (Some [ADMIN]) \<lparr>userId = i, u_username = n, u_role = SUPERADMIN\<rparr>
   \<and> SUPERADMIN \<notin> set [ADMIN]"
  by (simp add: canActivate_Some)

text \<open>
  C5, as stated: with an empty set of required roles the guard allows every user. The
  guard returns early only when the metadata is absent; for the empty array that
  \<^verbatim>\<open>@Roles()\<close> declares, \<^verbatim>\<open>[].some(...)\<close> is false and the request is denied.
\<close>

theorem empty_roles_list_denies:
  "\<not> RolesGuard_canActivate (Some [])
        \<lparr>userId = ''1'', u_username = ''superadmin'', u_role = SUPERADMIN\<rparr>"
  by (simp add: RolesGuard_canActivate_def)

text \<open>
  C5, amended: when the operation declares no required roles at all (the metadata is
  absent), the guard allows every user, whatever the role.
\<close>

theorem absent_roles_allows: "RolesGuard_canActivate None user"
  by (simp add: RolesGuard_canActivate_def)

text \<open>
  C9. A user whose role is ADMIN is denied by a requirement that lists only SUPERADMIN.
\<close>

theorem admin_denied_superadmin_only:
  "RolesGuard_canActivate (Some [SUPERADMIN]) \<lparr>userId = i, u_username = n, u_role = ADMIN\<rparr>
     = False"
  by (simp add: canActivate_Some)

text \<open>
  C10. Whenever the required roles contain ADMIN, a user whose role is SUPERADMIN is
  allowed: the guard looks for a required role as a substring of the user's role, and
  \<open>''superadmin''\<close> contains \<open>''admin''\<close>.
\<close>

theorem superadmin_allowed_when_admin_required:
  assumes "ADMIN \<in> set rs" and "u_role user = SUPERADMIN"
  shows "RolesGuard_canActivate (Some rs) user
         \<and> str_includes (role_value (u_role user)) (role_value ADMIN)"
  using assms by (simp add: canActivate_Some)

theorem superadmin_allowed_when_admin_required_witness:
  "ADMIN \<in> set [USER, ADMIN]
   \<and> u_role \<lparr>userId = ''1'', u_username = ''root'', u_role = SUPERADMIN\<rparr> = SUPERADMIN
   \<and> RolesGuard_canActivate (Some [USER, ADMIN])
        \<lparr>userId = ''1'', u_username = ''root'', u_role = SUPERADMIN\<rparr>"
  using superadmin_allowed_when_admin_required
    [of "[USER, ADMIN]" "\<lparr>userId = ''1'', u_username = ''root'', u_role = SUPERADMIN\<rparr>"]
  by simp

section \<open>Missing ids\<close>

text \<open>
  C6. The claim: deleting or updating an id that is not in the store fails with NotFound
  as the caller of the endpoint sees it. \<open>UsersService_delete\<close> and \<open>UsersService_update\<close>
  do throw \<open>NotFoundException\<close>, but the handlers catch every error and throw
  \<open>ForbiddenException\<close> in its place. In a store whose only row has the id \<open>id1\<close>, both
  requests for \<open>id2\<close> are answered with \<open>ForbiddenException\<close>.
\<close>

theorem missing_id_answered_forbidden:
  "fst (UsersService_delete ''id2''
          [\<lparr>uid = ''id1'', username = ''bob'', password = Digest ''s'' (Plain ''pw''), role = USER\<rparr>])
     = Inl (NotFoundException ''User with ID id2 not found.'')
   \<and> fst (UsersController_delete ''id2''
          [\<lparr>uid = ''id1'', username = ''bob'', password = Digest ''s'' (Plain ''pw''), role = USER\<rparr>])
     = Inl (ForbiddenException ''No access to delete user.'')
   \<and> fst (UsersController_update ''id2''
          \<lparr>dto_username = None, dto_password = None, dto_role = Some ADMIN\<rparr>
          [\<lparr>uid = ''id1'', username = ''bob'', password = Digest ''s'' (Plain ''pw''), role = USER\<rparr>])
     = Inl (ForbiddenException ''No access to update user.'')"
  by (simp add: controller_delete_missing controller_update_missing service_delete_missing)

section \<open>Tokens\<close>

text \<open>
  C7. A token issued by \<open>AuthService_login\<close> for a user and presented before its expiry
  (one hour after issue) resolves to the identity with that user's id, username and
  role.
\<close>

theorem token_round_trip:
  assumes "now < issuedAt + 3600"
  shows "JwtAuthGuard secret now (access_token (AuthService_login secret issuedAt user)) =
           Inr \<lparr>userId = r_id user, u_username = r_username user, u_role = r_role user\<rparr>"
  using assms
  by (simp add: JwtAuthGuard_def jwt_verify_def AuthService_login_def jwt_sign_def
      JwtStrategy_validate_def Let_def)

theorem token_round_trip_witness:
  "(3604::nat) < 5 + 3600
   \<and> JwtAuthGuard ''my-secret-key'' 3604
        (access_token (AuthService_login ''my-secret-key'' 5
           \<lparr>r_id = ''id1'', r_username = ''bob'', r_role = ADMIN\<rparr>)) =
      Inr \<lparr>userId = ''id1'', u_username = ''bob'', u_role = ADMIN\<rparr>"
  using token_round_trip [of 3604 5 "''my-secret-key''"
      "\<lparr>r_id = ''id1'', r_username = ''bob'', r_role = ADMIN\<rparr>"]
  by simp

section \<open>Seeding twice\<close>

text \<open>
  C8. When the store already holds a user named \<open>superadmin\<close>, \<open>SeedService_seed\<close> returns
  the store as it was: no row is added and none is changed.
\<close>

theorem seed_idempotent:
  assumes "u \<in> set store" and "username u = ''superadmin''"
  shows "SeedService_seed salt1 salt2 newId store = store"
proof -
  from findOne_present [OF assms] obtain v
    where "UsersService_findOne ''superadmin'' store = Some v" by blast
  then show ?thesis by (simp add: SeedService_seed_def)
qed

theorem seed_idempotent_witness:
  "\<lparr>uid = ''id1'', username = ''superadmin'', password = Plain ''x'', role = USER\<rparr>
     \<in> set [\<lparr>uid = ''id0'', username = ''bob'', password = Plain ''y'', role = ADMIN\<rparr>,
             \<lparr>uid = ''id1'', username = ''superadmin'', password = Plain ''x'', role = USER\<rparr>]
   \<and> username \<lparr>uid = ''id1'', username = ''superadmin'', password = Plain ''x'', role = USER\<rparr>
       = ''superadmin''
   \<and> SeedService_seed ''s1'' ''s2'' ''id2''
        [\<lparr>uid = ''id0'', username = ''bob'', password = Plain ''y'', role = ADMIN\<rparr>,
         \<lparr>uid = ''id1'', username = ''superadmin'', password = Plain ''x'', role = USER\<rparr>]
      = [\<lparr>uid = ''id0'', username = ''bob'', password = Plain ''y'', role = ADMIN\<rparr>,
         \<lparr>uid = ''id1'', username = ''superadmin'', password = Plain ''x'', role = USER\<rparr>]"
  using seed_idempotent
    [of "\<lparr>uid = ''id1'', username = ''superadmin'', password = Plain ''x'', role = USER\<rparr>"
        "[\<lparr>uid = ''id0'', username = ''bob'', password = Plain ''y'', role = ADMIN\<rparr>,
          \<lparr>uid = ''id1'', username = ''superadmin'', password = Plain ''x'', role = USER\<rparr>]"
        "''s1''" "''s2''" "''id2''"]
  by simp

end
